theory Spec2Isabelle
  imports Complex_Main
begin

section \<open>Python values and the command line\<close>

text \<open>
  The driver \<^verbatim>\<open>train_mlp.py\<close> passes Python objects around without looking into
  them.  The values that can occur as an argument of a strategy constructor are
  collected in one datatype.  A float is modelled by a real number: the driver only
  forwards it.  \<open>PyGenerator\<close> stands for a random generator object
  (\<^verbatim>\<open>random.Random(s)\<close>, \<^verbatim>\<open>np.random.default_rng(s)\<close>, \<^verbatim>\<open>torch.Generator()\<close>) and
  \<open>PyInt\<close> for an integer such as a seed.
\<close>

datatype pyval =
    PyNone
  | PyStr string
  | PyFloat real
  | PyBool bool
  | PyInt int
  | PyGenerator int

text \<open>
  The namespace returned by \<^verbatim>\<open>parse_arguments\<close> (lines 34-59).  An option declared
  with \<^verbatim>\<open>type = str\<close> and no default is \<^verbatim>\<open>None\<close> when it is not given.  The field for
  \<^verbatim>\<open>args.method\<close> is \<open>method_arg\<close>.
\<close>

record args =
  device :: int
  dataset :: string
  log_dir :: "string option"
  checkpoint_dir :: "string option"
  batch_size :: int
  neighbours :: int
  num_workers :: int
  num_epochs :: int
  hidden_dim :: int
  lr :: real
  log_every :: int
  gnn_layers :: int
  predictor_layers :: int
  sampler :: string
  method_arg :: string
  prob :: real
  homophilic_prob :: real
  p_f :: real
  dropout :: real
  mask_path :: "string option"

definition default_args :: args where
  "default_args =
     \<lparr> device = 0, dataset = ''ogbn-arxiv'', log_dir = None, checkpoint_dir = None,
       batch_size = 1024, neighbours = 10, num_workers = 2, num_epochs = 100,
       hidden_dim = 256, lr = 1 / 1000, log_every = 1, gnn_layers = 3,
       predictor_layers = 3, sampler = ''full'', method_arg = ''higher'', prob = 1 / 2,
       homophilic_prob = 1 / 2, p_f = 1 / 2, dropout = 0, mask_path = None \<rparr>"

text \<open>
  One command-line option, after \<^verbatim>\<open>argparse\<close> has applied the option's \<^verbatim>\<open>type\<close>
  conversion.  No option of the parser has \<^verbatim>\<open>choices\<close> or a range check, so every
  converted value is stored as it is; a later occurrence of an option overrides an
  earlier one.
\<close>

datatype cli_option =
    OptDevice int
  | OptDataset string
  | OptLogDir string
  | OptCheckpointDir string
  | OptBatchSize int
  | OptNeighbours int
  | OptNumWorkers int
  | OptNumEpochs int
  | OptHiddenDim int
  | OptLr real
  | OptLogEvery int
  | OptGnnLayers int
  | OptPredictorLayers int
  | OptSampler string
  | OptMethod string
  | OptProb real
  | OptHomophilicProb real
  | OptPF real
  | OptDropout real
  | OptMaskPath string

fun store_option :: "args \<Rightarrow> cli_option \<Rightarrow> args" where
  "store_option a (OptDevice v) = a\<lparr>device := v\<rparr>"
| "store_option a (OptDataset v) = a\<lparr>dataset := v\<rparr>"
| "store_option a (OptLogDir v) = a\<lparr>log_dir := Some v\<rparr>"
| "store_option a (OptCheckpointDir v) = a\<lparr>checkpoint_dir := Some v\<rparr>"
| "store_option a (OptBatchSize v) = a\<lparr>batch_size := v\<rparr>"
| "store_option a (OptNeighbours v) = a\<lparr>neighbours := v\<rparr>"
| "store_option a (OptNumWorkers v) = a\<lparr>num_workers := v\<rparr>"
| "store_option a (OptNumEpochs v) = a\<lparr>num_epochs := v\<rparr>"
| "store_option a (OptHiddenDim v) = a\<lparr>hidden_dim := v\<rparr>"
| "store_option a (OptLr v) = a\<lparr>lr := v\<rparr>"
| "store_option a (OptLogEvery v) = a\<lparr>log_every := v\<rparr>"
| "store_option a (OptGnnLayers v) = a\<lparr>gnn_layers := v\<rparr>"
| "store_option a (OptPredictorLayers v) = a\<lparr>predictor_layers := v\<rparr>"
| "store_option a (OptSampler v) = a\<lparr>sampler := v\<rparr>"
| "store_option a (OptMethod v) = a\<lparr>method_arg := v\<rparr>"
| "store_option a (OptProb v) = a\<lparr>prob := v\<rparr>"
| "store_option a (OptHomophilicProb v) = a\<lparr>homophilic_prob := v\<rparr>"
| "store_option a (OptPF v) = a\<lparr>p_f := v\<rparr>"
| "store_option a (OptDropout v) = a\<lparr>dropout := v\<rparr>"
| "store_option a (OptMaskPath v) = a\<lparr>mask_path := Some v\<rparr>"

definition parse_arguments :: "cli_option list \<Rightarrow> args" where
  "parse_arguments argv = foldl store_option default_args argv"

text \<open>\<^verbatim>\<open>set_args_based_on_dataset\<close> (lines 26-32).\<close>

definition set_args_based_on_dataset :: "args \<Rightarrow> args" where
  "set_args_based_on_dataset a =
     (if dataset a = ''ogbn-products'' then a\<lparr>batch_size := 10000\<rparr> else a)"

section \<open>The sampler hierarchy\<close>

text \<open>
  \<^verbatim>\<open>graphsampler/graph_sampler.py\<close>: the base class.  Its constructor does nothing and
  the body of \<^verbatim>\<open>sample_graph\<close> is \<^verbatim>\<open>pass\<close>, so the method returns \<^verbatim>\<open>None\<close> for every
  argument.  The class derives from \<^verbatim>\<open>ABC\<close>, but the imported \<^verbatim>\<open>abstractmethod\<close> is
  applied to no method, so the class can be instantiated and the method called.  The
  result of a method that may return \<^verbatim>\<open>None\<close> or a graph is an option.
\<close>

definition GraphSampler_init :: "unit" where
  "GraphSampler_init = ()"

definition GraphSampler_sample_graph :: "unit \<Rightarrow> 'g \<Rightarrow> 'g option" where
  "GraphSampler_sample_graph self original_graph = None"

text \<open>
  The eight strategy classes that the driver imports from the package
  \<^verbatim>\<open>graphsampler\<close>.  A constructed sampler is the record of its class and of the
  positional and keyword arguments of the constructor call.
\<close>

datatype sampler_class =
    FullSampler
  | UniformEdgeSampler
  | UniformNodeSampler
  | DegreeNodeSampler
  | DegreeEdgeSampler
  | LabelEdgeSampler
  | ForestFireSampler
  | MaskGcnSampler

datatype sampler_obj =
  Sampler (class_of: sampler_class) (positional: "pyval list") (kwargs: "(string \<times> pyval) list")

text \<open>Exceptions.  The driver itself raises only the first one (see below); the other
  three are the taxonomy of the specification, which a strategy may raise.\<close>

datatype error =
    UnboundLocalError string
  | ConfigurationError string
  | IOError string
  | InvariantViolation string

text \<open>
  The dataset object as far as the driver touches it: the attributes \<^verbatim>\<open>graph\<close> and
  \<^verbatim>\<open>directed\<close>.  The graph is an opaque value to the driver.
\<close>

record 'v dataset_obj =
  graph :: 'v
  directed :: bool

text \<open>
  Modelled from the spec: the method \<^verbatim>\<open>set_sampled_graph\<close> of the dataset class
  \<^verbatim>\<open>HomogenousNodeClsDataset\<close>, which the driver imports from the package \<^verbatim>\<open>datasets\<close>.
  The caller "substitutes it for the original graph in all downstream (training)
  use".
\<close>

definition set_sampled_graph :: "'v \<Rightarrow> 'v dataset_obj \<Rightarrow> 'v dataset_obj" where
  "set_sampled_graph sampled_graph ds = ds\<lparr>graph := sampled_graph\<rparr>"

section \<open>The driver\<close>

text \<open>
  The global random generators that \<^verbatim>\<open>set_seeds\<close> writes, and the thread count of
  Torch.  A generator is either in a state the driver has not set, or it has been
  seeded and a number of values has been drawn from it since.  Everything that runs in
  the process can read and advance this state: the collaborators of the driver take it
  and hand it on.
\<close>

datatype generator = Unseeded nat | Seeded int nat

record world =
  torch_num_threads :: int
  numpy_random :: generator
  torch_cpu :: generator
  torch_cuda :: generator
  python_random :: generator

text \<open>
  What the driver does that is visible outside it, in order.  A call of code that lives
  outside the driver (the dataset class, a strategy's constructor, a strategy's
  \<^verbatim>\<open>sample_graph\<close>) is recorded with the state of the generators in which it starts.
\<close>

datatype 'v event =
    SetNumThreads int
  | SeedNumpy int
  | SeedTorch int
  | SeedTorchCuda int
  | SeedPython int
  | ParseArguments
  | PrintDevice
  | PrintArgs args
  | OpenSummaryWriter "string option"
  | LoadDataset string world
  | Construct sampler_obj world
  | CallSampleGraph sampler_obj 'v world
  | SetSampledGraph 'v
  | Print string

definition opt_str :: "string option \<Rightarrow> pyval" where
  "opt_str s = (case s of None \<Rightarrow> PyNone | Some t \<Rightarrow> PyStr t)"

text \<open>
  Lines 69-86 of \<^verbatim>\<open>sample_graph\<close>: the \<^verbatim>\<open>if\<close>/\<^verbatim>\<open>elif\<close> chain, in the order of the
  source, with the class and the arguments of the constructor call of each branch.
  The chain has no \<^verbatim>\<open>else\<close>: for any other name no constructor is called and the local
  variable \<^verbatim>\<open>sampler\<close> stays unbound, which is the result \<open>None\<close>.
\<close>

definition sampler_binding :: "'v dataset_obj \<Rightarrow> args \<Rightarrow> sampler_obj option" where
  "sampler_binding ds a =
    (let sampler_type = sampler a in
     if sampler_type = ''full'' then
       Some (Sampler FullSampler [opt_str (checkpoint_dir a)] [])
     else if sampler_type = ''uniform_edge'' then
       Some (Sampler UniformEdgeSampler []
         [(''p'', PyFloat (prob a)), (''graph_save_dir'', opt_str (checkpoint_dir a)),
          (''directed'', PyBool (directed ds))])
     else if sampler_type = ''uniform_node'' then
       Some (Sampler UniformNodeSampler []
         [(''p'', PyFloat (prob a)), (''graph_save_dir'', opt_str (checkpoint_dir a))])
     else if sampler_type = ''degree_node'' then
       Some (Sampler DegreeNodeSampler []
         [(''p'', PyFloat (prob a)), (''graph_save_dir'', opt_str (checkpoint_dir a)),
          (''method'', PyStr (method_arg a))])
     else if sampler_type = ''degree_edge'' then
       Some (Sampler DegreeEdgeSampler []
         [(''p'', PyFloat (prob a)), (''graph_save_dir'', opt_str (checkpoint_dir a)),
          (''method'', PyStr (method_arg a)), (''directed'', PyBool (directed ds))])
     else if sampler_type = ''label_edge'' then
       Some (Sampler LabelEdgeSampler []
         [(''p'', PyFloat (prob a)), (''homophilic_prob'', PyFloat (homophilic_prob a)),
          (''graph_save_dir'', opt_str (checkpoint_dir a)),
          (''directed'', PyBool (directed ds))])
     else if sampler_type = ''forest_fire'' then
       Some (Sampler ForestFireSampler []
         [(''p'', PyFloat (prob a)), (''p_f'', PyFloat (p_f a)),
          (''graph_save_dir'', opt_str (checkpoint_dir a))])
     else if sampler_type = ''mask_gcn'' then
       Some (Sampler MaskGcnSampler []
         [(''mask_path'', opt_str (mask_path a)), (''p'', PyFloat (prob a)),
          (''graph_save_dir'', opt_str (checkpoint_dir a))])
     else None)"

text \<open>
  The outcome of a call of the driver's \<^verbatim>\<open>sample_graph\<close>: the exception that left
  it, if any, the events in their order, the dataset object and the state of the
  generators afterwards.
\<close>

record 'v outcome =
  raised :: "error option"
  trace :: "'v event list"
  dataset_after :: "'v dataset_obj"
  world_left :: world

text \<open>
  \<^verbatim>\<open>sample_graph\<close> (lines 68-89).  The strategy classes are two parameters.  The
  constructor, \<open>init\<close>, gets the class and the arguments of the call and the state
  of the generators; it raises (\<open>Some e\<close>) or returns the instance (\<open>None\<close>), which is
  identified with the call that made it.  The method \<^verbatim>\<open>sample_graph\<close> of the instance,
  \<open>strategy\<close>, gets the instance, the graph and the state of the generators; it raises
  or returns a value.  Both hand the state of the generators on.

  The constructor call is part of the branch taken (lines 71-86): when it raises, the
  exception leaves the function there and line 87 is not reached.  Line 87 reads the
  local variable \<^verbatim>\<open>sampler\<close> before anything else of that line is evaluated; when no
  branch has bound it, Python raises \<^verbatim>\<open>UnboundLocalError\<close> there.  The function has no
  \<^verbatim>\<open>try\<close>, so an exception of a strategy leaves it as it is.
\<close>

definition sample_graph ::
  "(sampler_obj \<Rightarrow> world \<Rightarrow> error option \<times> world) \<Rightarrow>
   (sampler_obj \<Rightarrow> 'v \<Rightarrow> world \<Rightarrow> (error + 'v) \<times> world) \<Rightarrow>
   'v dataset_obj \<Rightarrow> args \<Rightarrow> world \<Rightarrow> 'v outcome" where
  "sample_graph init strategy ds a w =
    (case sampler_binding ds a of
       None \<Rightarrow>
         \<lparr> raised = Some (UnboundLocalError ''sampler''), trace = [], dataset_after = ds,
           world_left = w \<rparr>
     | Some smp \<Rightarrow>
        (case init smp w of
           (Some e, w1) \<Rightarrow>
             \<lparr> raised = Some e, trace = [Construct smp w], dataset_after = ds,
               world_left = w1 \<rparr>
         | (None, w1) \<Rightarrow>
            (case strategy smp (graph ds) w1 of
               (Inl e, w2) \<Rightarrow>
                 \<lparr> raised = Some e,
                   trace = [Construct smp w, CallSampleGraph smp (graph ds) w1],
                   dataset_after = ds, world_left = w2 \<rparr>
             | (Inr sampled_graph, w2) \<Rightarrow>
                 \<lparr> raised = None,
                   trace = [Construct smp w, CallSampleGraph smp (graph ds) w1,
                            SetSampledGraph sampled_graph, Print ''Sampled the graph''],
                   dataset_after = set_sampled_graph sampled_graph ds,
                   world_left = w2 \<rparr>)))"

text \<open>
  Read off a trace: the constructor calls, the \<^verbatim>\<open>sample_graph\<close> calls with their
  argument, the graphs stored in the dataset, the state of the generators in which the
  \<^verbatim>\<open>sample_graph\<close> calls start, the calls of the dataset class, and the seedings.
\<close>

fun constructions :: "'v event list \<Rightarrow> sampler_obj list" where
  "constructions [] = []"
| "constructions (Construct smp w # es) = smp # constructions es"
| "constructions (e # es) = constructions es"

fun sample_calls :: "'v event list \<Rightarrow> (sampler_obj \<times> 'v) list" where
  "sample_calls [] = []"
| "sample_calls (CallSampleGraph smp g w # es) = (smp, g) # sample_calls es"
| "sample_calls (e # es) = sample_calls es"

fun stored_graphs :: "'v event list \<Rightarrow> 'v list" where
  "stored_graphs [] = []"
| "stored_graphs (SetSampledGraph g # es) = g # stored_graphs es"
| "stored_graphs (e # es) = stored_graphs es"

fun sampling_worlds :: "'v event list \<Rightarrow> world list" where
  "sampling_worlds [] = []"
| "sampling_worlds (CallSampleGraph smp g w # es) = w # sampling_worlds es"
| "sampling_worlds (e # es) = sampling_worlds es"

fun loads :: "'v event list \<Rightarrow> (string \<times> world) list" where
  "loads [] = []"
| "loads (LoadDataset name w # es) = (name, w) # loads es"
| "loads (e # es) = loads es"

fun seedings :: "'v event list \<Rightarrow> 'v event list" where
  "seedings [] = []"
| "seedings (SeedNumpy n # es) = SeedNumpy n # seedings es"
| "seedings (SeedTorch n # es) = SeedTorch n # seedings es"
| "seedings (SeedTorchCuda n # es) = SeedTorchCuda n # seedings es"
| "seedings (SeedPython n # es) = SeedPython n # seedings es"
| "seedings (e # es) = seedings es"

text \<open>\<^verbatim>\<open>set_seeds\<close> (lines 61-66): it takes no argument.\<close>

definition set_seeds :: "world \<Rightarrow> world \<times> 'v event list" where
  "set_seeds w =
     (w\<lparr> torch_num_threads := 1, numpy_random := Seeded 42 0, torch_cpu := Seeded 42 0,
        torch_cuda := Seeded 42 0, python_random := Seeded 42 0 \<rparr>,
      [SetNumThreads 1, SeedNumpy 42, SeedTorch 42, SeedTorchCuda 42, SeedPython 42])"

text \<open>Python's truth value of an optional string: \<^verbatim>\<open>None\<close> and \<^verbatim>\<open>''\<close> are false.\<close>

definition truthy :: "string option \<Rightarrow> bool" where
  "truthy s = (case s of None \<Rightarrow> False | Some t \<Rightarrow> t \<noteq> [])"

record 'v run =
  failure :: "error option"
  events :: "'v event list"
  world_after :: world
  args_after :: args
  dataset_final :: "'v dataset_obj"

text \<open>
  \<^verbatim>\<open>main\<close> from its first line to the return of \<^verbatim>\<open>sample_graph\<close> (lines 138-158).
  The constructor of the dataset class is the parameter \<open>load\<close>; it runs between the
  seeding and the sampling, gets the name of the dataset and the state of the
  generators, and hands that state on.  The other calls before line 158
  (\<^verbatim>\<open>argparse\<close>, \<^verbatim>\<open>torch.device\<close>, \<^verbatim>\<open>print\<close>, the \<^verbatim>\<open>SummaryWriter\<close>) are library code
  that draws nothing from these generators.  \<^verbatim>\<open>main\<close> has no \<^verbatim>\<open>try\<close>: an exception
  that leaves \<^verbatim>\<open>sample_graph\<close> leaves \<^verbatim>\<open>main\<close> unchanged and ends the process.
\<close>

definition main ::
  "(string \<Rightarrow> world \<Rightarrow> 'v dataset_obj \<times> world) \<Rightarrow>
   (sampler_obj \<Rightarrow> world \<Rightarrow> error option \<times> world) \<Rightarrow>
   (sampler_obj \<Rightarrow> 'v \<Rightarrow> world \<Rightarrow> (error + 'v) \<times> world) \<Rightarrow>
   cli_option list \<Rightarrow> world \<Rightarrow> 'v run" where
  "main load init strategy argv w =
    (let (w1, seeding) = set_seeds w;
         a0 = parse_arguments argv;
         a1 = set_args_based_on_dataset a0;
         a2 = (if truthy (log_dir a1) \<and> \<not> truthy (checkpoint_dir a1)
               then a1\<lparr>checkpoint_dir := log_dir a1\<rparr> else a1);
         writer = (if log_dir a2 \<noteq> Some [] then [OpenSummaryWriter (log_dir a2)] else []);
         (ds, w2) = load (dataset a2) w1;
         out = sample_graph init strategy ds a2 w2
     in \<lparr> failure = raised out,
          events = seeding @ [ParseArguments, PrintDevice, PrintArgs a2] @ writer
                   @ [LoadDataset (dataset a2) w1] @ trace out,
          world_after = world_left out,
          args_after = a2,
          dataset_final = dataset_after out \<rparr>)"

section \<open>The sampler names of the specification\<close>

text \<open>The enumeration of sampler names that the specification gives for the
  configuration surface.\<close>

definition sampler_names :: "string list" where
  "sampler_names =
     [''full'', ''uniform_node'', ''uniform_edge'', ''degree_node'', ''degree_edge'',
      ''label_edge'', ''forest_fire'', ''mask_gcn'']"

text \<open>
  The driver dispatches to \<open>smp\<close>: the constructor is called exactly once, for the
  class and with the arguments of \<open>smp\<close>.  When the constructor returns, the method
  \<^verbatim>\<open>sample_graph\<close> of the instance is called exactly once, on the graph of the dataset.
  When the constructor raises, its exception leaves the driver and the method is not
  called.
\<close>

definition dispatches_to ::
  "(sampler_obj \<Rightarrow> world \<Rightarrow> error option \<times> world) \<Rightarrow>
   (sampler_obj \<Rightarrow> 'v \<Rightarrow> world \<Rightarrow> (error + 'v) \<times> world) \<Rightarrow>
   'v dataset_obj \<Rightarrow> args \<Rightarrow> world \<Rightarrow> sampler_obj \<Rightarrow> bool" where
  "dispatches_to init strategy ds a w smp =
     (constructions (trace (sample_graph init strategy ds a w)) = [smp] \<and>
      (case fst (init smp w) of
         None \<Rightarrow>
           sample_calls (trace (sample_graph init strategy ds a w)) = [(smp, graph ds)]
       | Some e \<Rightarrow>
           sample_calls (trace (sample_graph init strategy ds a w)) = [] \<and>
           raised (sample_graph init strategy ds a w) = Some e))"

definition is_ConfigurationError :: "error \<Rightarrow> bool" where
  "is_ConfigurationError e = (case e of ConfigurationError m \<Rightarrow> True | _ \<Rightarrow> False)"

definition raises_ConfigurationError :: "error option \<Rightarrow> bool" where
  "raises_ConfigurationError r = (case r of None \<Rightarrow> False | Some e \<Rightarrow> is_ConfigurationError e)"

text \<open>The arguments of a constructor call, and whether one of them is a random
  generator or an integer (a seed).\<close>

definition arguments :: "sampler_obj \<Rightarrow> pyval list" where
  "arguments smp = positional smp @ map snd (kwargs smp)"

definition is_generator :: "pyval \<Rightarrow> bool" where
  "is_generator v = (case v of PyGenerator s \<Rightarrow> True | _ \<Rightarrow> False)"

definition is_seed :: "pyval \<Rightarrow> bool" where
  "is_seed v = (case v of PyInt s \<Rightarrow> True | _ \<Rightarrow> False)"

definition receives_generator :: "sampler_obj \<Rightarrow> bool" where
  "receives_generator smp = list_ex is_generator (arguments smp)"

text \<open>The state in which \<^verbatim>\<open>set_seeds\<close> leaves the generators.\<close>

definition seeded_world :: world where
  "seeded_world =
     \<lparr> torch_num_threads = 1, numpy_random = Seeded 42 0, torch_cpu = Seeded 42 0,
       torch_cuda = Seeded 42 0, python_random = Seeded 42 0 \<rparr>"

section \<open>Graphs\<close>

text \<open>
  Modelled from the spec: the graph value of the data model, whose class (a DGL graph)
  is not defined in the driver: \<open>N\<close> nodes \<open>0, ..., N - 1\<close>, a list of edges as ordered
  pairs, the direction flag, a label per node that may be absent, and an opaque feature
  reference per node.
\<close>

record 'f sgraph =
  num_nodes :: nat
  edges :: "(nat \<times> nat) list"
  is_directed :: bool
  labels :: "nat option list"
  feature_refs :: "'f list"

text \<open>The ring of six nodes that the specification uses in its scenarios.\<close>

definition ring6 :: "unit sgraph" where
  "ring6 =
     \<lparr> num_nodes = 6, edges = [(0, 1), (1, 2), (2, 3), (3, 4), (4, 5), (5, 0)],
       is_directed = False, labels = replicate 6 None, feature_refs = replicate 6 () \<rparr>"

section \<open>Example inputs\<close>

definition ring_dataset :: "unit sgraph dataset_obj" where
  "ring_dataset = \<lparr> graph = ring6, directed = False \<rparr>"

text \<open>A dataset class that loads the ring and leaves the generators alone, and one that
  draws a value from the NumPy generator when it loads \<^verbatim>\<open>ogbn-products\<close>.\<close>

definition load_ring :: "string \<Rightarrow> world \<Rightarrow> unit sgraph dataset_obj \<times> world" where
  "load_ring name w = (ring_dataset, w)"



text \<open>
  A constructor that always returns, and one that follows the taxonomy of the
  specification for a "missing required parameter": it raises a
  \<^verbatim>\<open>ConfigurationError\<close> for a \<^verbatim>\<open>MaskGcnSampler\<close> without a mask path.
\<close>

definition accepts :: "sampler_obj \<Rightarrow> world \<Rightarrow> error option \<times> world" where
  "accepts smp w = (None, w)"

definition requires_mask :: "sampler_obj \<Rightarrow> world \<Rightarrow> error option \<times> world" where
  "requires_mask smp w =
     (if class_of smp = MaskGcnSampler \<and> (''mask_path'', PyNone) \<in> set (kwargs smp)
      then (Some (ConfigurationError ''mask_path''), w) else (None, w))"

text \<open>A strategy that hands its argument back, and a process whose generators have
  not been seeded yet.\<close>

definition returns_input :: "sampler_obj \<Rightarrow> 'v \<Rightarrow> world \<Rightarrow> (error + 'v) \<times> world" where
  "returns_input smp g w = (Inr g, w)"

definition fresh_world :: world where
  "fresh_world =
     \<lparr> torch_num_threads = 8, numpy_random = Unseeded 0, torch_cpu = Unseeded 1,
       torch_cuda = Unseeded 2, python_random = Unseeded 3 \<rparr>"

section \<open>The strategies described by the specification\<close>

subsection \<open>FullSampler\<close>

text \<open>
  Graph objects live in a store that maps an object identity to the graph value; a
  method receives and returns identities, so that handing back the same object and
  handing back a copy are different results.
\<close>

type_synonym 'f store = "nat \<Rightarrow> 'f sgraph option"

text \<open>
  Modelled from the spec: \<^verbatim>\<open>FullSampler.sample_graph\<close>, whose class is imported from the
  package \<^verbatim>\<open>graphsampler\<close> and only constructed in the driver (line 71).  It "returns
  the original graph unchanged" and "must not allocate a copy": the store stays as it
  is and the result is the identity of the argument.
\<close>

definition FullSampler_sample_graph :: "'f store \<Rightarrow> nat \<Rightarrow> 'f store \<times> nat" where
  "FullSampler_sample_graph h original_graph = (h, original_graph)"

definition ring_store :: "unit store" where
  "ring_store = (\<lambda>r. if r = 0 then Some ring6 else None)"

subsection \<open>ForestFireSampler\<close>

text \<open>
  Modelled from the spec: the seeded generator, "threaded through each call", with the
  two primitives the forest fire needs: a Bernoulli trial with a given probability and
  the choice of an index below a given bound.  Each takes the state of the generator
  and returns the new one.  The specification fixes no algorithm, so the primitives
  are a parameter.
\<close>

record 'r randomness =
  bernoulli :: "real \<Rightarrow> 'r \<Rightarrow> bool \<times> 'r"
  choice :: "nat \<Rightarrow> 'r \<Rightarrow> nat \<times> 'r"

text \<open>
  Modelled from the spec: traversal of the graph.  An edge \<open>(u, v)\<close> leads from \<open>u\<close> to
  \<open>v\<close>, and in an undirected graph also back, "without a duplicate entry".  Nodes
  are enumerated in increasing order.
\<close>

definition adjacent :: "'f sgraph \<Rightarrow> nat \<Rightarrow> nat \<Rightarrow> bool" where
  "adjacent g u v =
     ((u, v) \<in> set (edges g) \<or> (\<not> is_directed g \<and> (v, u) \<in> set (edges g)))"

definition unvisited :: "'f sgraph \<Rightarrow> nat list \<Rightarrow> nat list" where
  "unvisited g visited = filter (\<lambda>v. v \<notin> set visited) [0..<num_nodes g]"

definition unvisited_neighbours :: "'f sgraph \<Rightarrow> nat list \<Rightarrow> nat \<Rightarrow> nat list" where
  "unvisited_neighbours g visited u = filter (adjacent g u) (unvisited g visited)"

text \<open>
  Modelled from the spec: one node of the frontier "ignites each unvisited neighbor
  independently with probability \<open>p_f\<close>", until the quota is met; \<open>room\<close> is the number
  of nodes that may still be retained.  The result is the list of the neighbours that
  caught fire, in the order of the enumeration.
\<close>

fun ignite :: "'r randomness \<Rightarrow> real \<Rightarrow> nat \<Rightarrow> nat list \<Rightarrow> 'r \<Rightarrow> nat list \<times> 'r" where
  "ignite R pf room [] s = ([], s)"
| "ignite R pf room (v # vs) s =
     (if room = 0 then ([], s)
      else case bernoulli R pf s of
             (True, s') \<Rightarrow> (case ignite R pf (room - 1) vs s' of (bs, s'') \<Rightarrow> (v # bs, s''))
           | (False, s') \<Rightarrow> ignite R pf room vs s')"

text \<open>
  Modelled from the spec: the loop of the forest fire, with the state the specification
  names: \<open>visited\<close> (the burned nodes, in the order in which they burned), the
  \<open>frontier\<close> queue and the generator.  One step of the loop lets one burned node
  spread the fire to its unvisited neighbours; \<open>steps\<close> counts the steps.  The node
  is the first of the queue; with an empty queue the burn is extinguished, and the
  step "picks an unvisited seed node", burns it and lets it spread.  The loop ends
  when the quota is met, or when the queue is empty and no unvisited node is left.
  It does end: a step that burns a node leaves fewer unvisited nodes, and one that
  burns none shortens the queue.
\<close>

function burn ::
  "'r randomness \<Rightarrow> 'f sgraph \<Rightarrow> real \<Rightarrow> nat \<Rightarrow> nat list \<Rightarrow> nat list \<Rightarrow> 'r \<Rightarrow> nat
     \<Rightarrow> nat list \<times> 'r \<times> nat" where
  "burn R g pf quota visited frontier s steps =
    (if quota \<le> length visited then (visited, s, steps)
     else case frontier of
       [] \<Rightarrow>
         (if unvisited g visited = [] then (visited, s, steps)
          else case choice R (length (unvisited g visited)) s of
            (i, s1) \<Rightarrow>
              (let seed = unvisited g visited ! (i mod length (unvisited g visited));
                   lit = visited @ [seed]
               in case ignite R pf (quota - length lit) (unvisited_neighbours g lit seed) s1 of
                    (new, s2) \<Rightarrow> burn R g pf quota (lit @ new) new s2 (steps + 1)))
     | u # rest \<Rightarrow>
         (case ignite R pf (quota - length visited) (unvisited_neighbours g visited u) s of
            (new, s') \<Rightarrow> burn R g pf quota (visited @ new) (rest @ new) s' (steps + 1)))"
  by pat_completeness auto
termination
proof (relation "measures [\<lambda>(R, g, pf, quota, visited, frontier, s, steps). length (unvisited g visited),
                    \<lambda>(R, g, pf, quota, visited, frontier, s, steps). length frontier]")
  show "wf (measures [\<lambda>(R::'a randomness, g::'b sgraph, pf::real, quota::nat, visited, frontier,
              s::'a, steps::nat). length (unvisited g visited),
            \<lambda>(R, g, pf, quota, visited, frontier, s, steps). length frontier])"
    by simp
next
  fix R :: "'a randomness" and g :: "'b sgraph" and pf :: real and quota steps i :: nat
    and visited frontier lit new :: "nat list" and s s2 :: 'a and seed :: nat
  assume "unvisited g visited \<noteq> []"
    and "seed = unvisited g visited ! (i mod length (unvisited g visited))"
    and l: "lit = visited @ [seed]"
  then have "seed \<in> set (unvisited g visited)"
    by simp
  moreover have "unvisited g (lit @ new)
      = filter (\<lambda>v. v \<notin> set ([seed] @ new)) (unvisited g visited)"
    unfolding l by (auto simp: unvisited_def intro: filter_cong)
  ultimately have "length (unvisited g (lit @ new)) < length (unvisited g visited)"
    by (simp add: length_filter_less)
  then show "((R, g, pf, quota, lit @ new, new, s2, steps + 1),
              R, g, pf, quota, visited, frontier, s, steps)
      \<in> measures [\<lambda>(R, g, pf, quota, visited, frontier, s, steps). length (unvisited g visited),
                    \<lambda>(R, g, pf, quota, visited, frontier, s, steps). length frontier]"
    by simp
next
  fix R :: "'a randomness" and g :: "'b sgraph" and pf :: real and quota steps u :: nat
    and visited frontier rest new :: "nat list" and s s' :: 'a
  assume f: "frontier = u # rest"
    and i: "(new, s') = ignite R pf (quota - length visited) (unvisited_neighbours g visited u) s"
  have sub: "set bs \<subseteq> set vs" if "ignite R pf room vs t = (bs, t')" for room vs t bs t'
    using that
    by (induction vs arbitrary: room t bs t')
       (fastforce split: if_splits prod.splits bool.splits)+
  from sub [OF i [symmetric]] have n: "set new \<subseteq> set (unvisited g visited)"
    by (auto simp: unvisited_neighbours_def)
  have a: "unvisited g (visited @ new) = filter (\<lambda>v. v \<notin> set new) (unvisited g visited)"
    by (auto simp: unvisited_def intro: filter_cong)
  then have le: "length (unvisited g (visited @ new)) \<le> length (unvisited g visited)"
    by simp
  have "length (unvisited g (visited @ new)) < length (unvisited g visited)" if "new \<noteq> []"
  proof -
    from that n have "hd new \<in> set (unvisited g visited)" and "hd new \<in> set new"
      by (cases new; auto)+
    then show ?thesis
      unfolding a by (intro length_filter_less [where x = "hd new"]) simp_all
  qed
  with le f show "((R, g, pf, quota, visited @ new, rest @ new, s', steps + 1),
              R, g, pf, quota, visited, frontier, s, steps)
      \<in> measures [\<lambda>(R, g, pf, quota, visited, frontier, s, steps). length (unvisited g visited),
                    \<lambda>(R, g, pf, quota, visited, frontier, s, steps). length frontier]"
    by (cases "new = []") auto
qed

text \<open>
  Modelled from the spec: "a target retained-node count derived from \<open>p\<close>".  The
  specification does not say how; the count is taken as \<open>p\<close> times the number of
  nodes, rounded down.
\<close>

definition target_count :: "real \<Rightarrow> nat \<Rightarrow> nat" where
  "target_count p n = nat \<lfloor>p * real n\<rfloor>"

record 'r forest_fire_result =
  burn_order :: "nat list"
  retained_edges :: "(nat \<times> nat) list"
  iterations :: nat
  generator_after :: 'r

text \<open>
  Modelled from the spec: \<^verbatim>\<open>ForestFireSampler.sample_graph\<close>, whose class is imported from
  the package \<^verbatim>\<open>graphsampler\<close> and only constructed in the driver (line 84).  The fire
  starts with nothing burned and an empty frontier; the sampled graph is induced by the
  burned nodes, which keep their identities: an edge survives when both its endpoints
  burned.
\<close>

definition ForestFireSampler_sample_graph ::
  "'r randomness \<Rightarrow> real \<Rightarrow> real \<Rightarrow> 'f sgraph \<Rightarrow> 'r \<Rightarrow> 'r forest_fire_result" where
  "ForestFireSampler_sample_graph R p pf g s =
     (case burn R g pf (target_count p (num_nodes g)) [] [] s 0 of
        (out, s', n) \<Rightarrow>
          \<lparr> burn_order = out,
            retained_edges = filter (\<lambda>(u, v). u \<in> set out \<and> v \<in> set out) (edges g),
            iterations = n,
            generator_after = s' \<rparr>)"

text \<open>
  An example of a generator: every trial succeeds and every choice is the first
  element.  Its state carries nothing.
\<close>

definition always_ignites :: "unit randomness" where
  "always_ignites = \<lparr> bernoulli = (\<lambda>p s. (True, s)), choice = (\<lambda>n s. (0, s)) \<rparr>"

section \<open>Properties of the driver\<close>

subsection \<open>Auxiliary facts\<close>

lemma sampler_binding_dispatch:
  "sampler_binding ds a = Some smp \<Longrightarrow> dispatches_to init strategy ds a w smp"
  by (simp add: dispatches_to_def sample_graph_def split: prod.split option.split sum.split)

lemma sampler_binding_unknown:
  "sampler a \<notin> set sampler_names \<Longrightarrow> sampler_binding ds a = None"
  by (simp add: sampler_binding_def sampler_names_def)


lemma sampler_binding_no_generator:
  "sampler_binding ds a = Some smp \<Longrightarrow>
     \<not> list_ex is_generator (arguments smp) \<and> \<not> list_ex is_seed (arguments smp)"
  by (auto simp: sampler_binding_def Let_def arguments_def is_generator_def is_seed_def opt_str_def
      split: if_splits option.splits)



lemma sample_graph_calls:
  "sample_calls (trace (sample_graph init strategy ds a w)) = [] \<or>
   (\<exists>smp. sampler_binding ds a = Some smp \<and>
      sample_calls (trace (sample_graph init strategy ds a w)) = [(smp, graph ds)] \<and>
      sampling_worlds (trace (sample_graph init strategy ds a w)) = [snd (init smp w)])"
  by (simp add: sample_graph_def split: prod.split option.split sum.split)

lemma sample_graph_constructions:
  "constructions (trace (sample_graph init strategy ds a w)) =
     (case sampler_binding ds a of None \<Rightarrow> [] | Some smp \<Rightarrow> [smp])"
  by (simp add: sample_graph_def split: prod.split option.split sum.split)

lemma sample_graph_seedings: "seedings (trace (sample_graph init strategy ds a w)) = []"
  by (simp add: sample_graph_def split: prod.split option.split sum.split)

lemma sample_graph_loads: "loads (trace (sample_graph init strategy ds a w)) = []"
  by (simp add: sample_graph_def split: prod.split option.split sum.split)

lemma set_seeds_world: "fst (set_seeds w) = seeded_world"
  by (cases w) (simp add: set_seeds_def seeded_world_def)

lemma constructions_append: "constructions (xs @ ys) = constructions xs @ constructions ys"
  by (induction xs rule: constructions.induct) simp_all

lemma sample_calls_append: "sample_calls (xs @ ys) = sample_calls xs @ sample_calls ys"
  by (induction xs rule: sample_calls.induct) simp_all

lemma sampling_worlds_append: "sampling_worlds (xs @ ys) = sampling_worlds xs @ sampling_worlds ys"
  by (induction xs rule: sampling_worlds.induct) simp_all

lemma loads_append: "loads (xs @ ys) = loads xs @ loads ys"
  by (induction xs rule: loads.induct) simp_all

lemma seedings_append: "seedings (xs @ ys) = seedings xs @ seedings ys"
  by (induction xs rule: seedings.induct) simp_all



lemma sampler_parse_main:
  "sampler (args_after (main load init strategy argv w)) = sampler (parse_arguments argv)"
  by (simp add: main_def Let_def set_args_based_on_dataset_def split: prod.split)

text \<open>The part of a run of \<^verbatim>\<open>main\<close> that is the call of \<^verbatim>\<open>sample_graph\<close>.\<close>

lemma main_sampling:
  assumes "a = args_after (main load init strategy argv w)"
    and "l = load (dataset a) seeded_world"
    and "out = sample_graph init strategy (fst l) a (snd l)"
  shows "failure (main load init strategy argv w) = raised out"
    and "constructions (events (main load init strategy argv w)) = constructions (trace out)"
    and "sample_calls (events (main load init strategy argv w)) = sample_calls (trace out)"
    and "sampling_worlds (events (main load init strategy argv w)) = sampling_worlds (trace out)"
    and "loads (events (main load init strategy argv w)) = [(dataset a, seeded_world)]"
    and "seedings (events (main load init strategy argv w))
           = [SeedNumpy 42, SeedTorch 42, SeedTorchCuda 42, SeedPython 42]"
    and "world_after (main load init strategy argv w) = world_left out"
    and "dataset_final (main load init strategy argv w) = dataset_after out"
  unfolding assms
  using set_seeds_world [of w]
  by (simp_all add: main_def Let_def constructions_append sample_calls_append
      sampling_worlds_append loads_append seedings_append set_seeds_def
      sample_graph_seedings sample_graph_loads split: prod.split)

subsection \<open>Dispatch\<close>

text \<open>
  Claim C1, as stated, says that for a recognised name the driver constructs an
  instance and calls its \<^verbatim>\<open>sample_graph\<close> exactly once.  The constructor call is part
  of the branch (lines 71-86) and may raise: with a constructor that rejects a
  \<^verbatim>\<open>MaskGcnSampler\<close> without a mask path, \<^verbatim>\<open>--sampler mask_gcn\<close> leaves the driver with
  that exception after the constructor call, with no instance and no call of
  \<^verbatim>\<open>sample_graph\<close>.
\<close>

theorem constructor_raises_counterexample:
  "sampler (default_args\<lparr>sampler := ''mask_gcn''\<rparr>) \<in> set sampler_names \<and>
   constructions (trace (sample_graph requires_mask returns_input ring_dataset
       (default_args\<lparr>sampler := ''mask_gcn''\<rparr>) fresh_world))
     = [Sampler MaskGcnSampler []
          [(''mask_path'', PyNone), (''p'', PyFloat (1 / 2)), (''graph_save_dir'', PyNone)]] \<and>
   raised (sample_graph requires_mask returns_input ring_dataset
       (default_args\<lparr>sampler := ''mask_gcn''\<rparr>) fresh_world)
     = Some (ConfigurationError ''mask_path'') \<and>
   sample_calls (trace (sample_graph requires_mask returns_input ring_dataset
       (default_args\<lparr>sampler := ''mask_gcn''\<rparr>) fresh_world)) = []"
  by (simp add: sample_graph_def sampler_binding_def default_args_def sampler_names_def
      requires_mask_def opt_str_def)

text \<open>
  Claim C1, amended.  For each of the eight sampler names the driver's \<^verbatim>\<open>sample_graph\<close>
  calls the constructor of the class that belongs to the name exactly once, with the
  configuration values of that strategy (\<^verbatim>\<open>p = args.prob\<close>, \<^verbatim>\<open>method\<close>,
  \<^verbatim>\<open>homophilic_prob\<close>, \<^verbatim>\<open>p_f\<close>, \<^verbatim>\<open>mask_path\<close>, the \<^verbatim>\<open>directed\<close> flag of the dataset
  for the three edge samplers, and \<^verbatim>\<open>args.checkpoint_dir\<close> as the cache directory).
  When the constructor returns, the driver calls the method \<^verbatim>\<open>sample_graph\<close> of the
  instance exactly once, on the graph of the dataset; when the constructor raises, its
  exception leaves the driver and the method is not called.
\<close>

theorem sample_graph_dispatch:
  "(sampler a = ''full'' \<longrightarrow>
      dispatches_to init strategy ds a w
        (Sampler FullSampler [opt_str (checkpoint_dir a)] [])) \<and>
   (sampler a = ''uniform_node'' \<longrightarrow>
      dispatches_to init strategy ds a w (Sampler UniformNodeSampler []
        [(''p'', PyFloat (prob a)), (''graph_save_dir'', opt_str (checkpoint_dir a))])) \<and>
   (sampler a = ''uniform_edge'' \<longrightarrow>
      dispatches_to init strategy ds a w (Sampler UniformEdgeSampler []
        [(''p'', PyFloat (prob a)), (''graph_save_dir'', opt_str (checkpoint_dir a)),
         (''directed'', PyBool (directed ds))])) \<and>
   (sampler a = ''degree_node'' \<longrightarrow>
      dispatches_to init strategy ds a w (Sampler DegreeNodeSampler []
        [(''p'', PyFloat (prob a)), (''graph_save_dir'', opt_str (checkpoint_dir a)),
         (''method'', PyStr (method_arg a))])) \<and>
   (sampler a = ''degree_edge'' \<longrightarrow>
      dispatches_to init strategy ds a w (Sampler DegreeEdgeSampler []
        [(''p'', PyFloat (prob a)), (''graph_save_dir'', opt_str (checkpoint_dir a)),
         (''method'', PyStr (method_arg a)), (''directed'', PyBool (directed ds))])) \<and>
   (sampler a = ''label_edge'' \<longrightarrow>
      dispatches_to init strategy ds a w (Sampler LabelEdgeSampler []
        [(''p'', PyFloat (prob a)), (''homophilic_prob'', PyFloat (homophilic_prob a)),
         (''graph_save_dir'', opt_str (checkpoint_dir a)),
         (''directed'', PyBool (directed ds))])) \<and>
   (sampler a = ''forest_fire'' \<longrightarrow>
      dispatches_to init strategy ds a w (Sampler ForestFireSampler []
        [(''p'', PyFloat (prob a)), (''p_f'', PyFloat (p_f a)),
         (''graph_save_dir'', opt_str (checkpoint_dir a))])) \<and>
   (sampler a = ''mask_gcn'' \<longrightarrow>
      dispatches_to init strategy ds a w (Sampler MaskGcnSampler []
        [(''mask_path'', opt_str (mask_path a)), (''p'', PyFloat (prob a)),
         (''graph_save_dir'', opt_str (checkpoint_dir a))]))"
  by (intro conjI impI sampler_binding_dispatch) (simp_all add: sampler_binding_def)

theorem sample_graph_dispatch_witness:
  "sampler (default_args\<lparr>sampler := ''label_edge'', checkpoint_dir := Some ''ckpt''\<rparr>)
     = ''label_edge'' \<and>
   constructions (trace (sample_graph accepts returns_input ring_dataset
       (default_args\<lparr>sampler := ''label_edge'', checkpoint_dir := Some ''ckpt''\<rparr>) fresh_world))
     = [Sampler LabelEdgeSampler []
          [(''p'', PyFloat (1 / 2)), (''homophilic_prob'', PyFloat (1 / 2)),
           (''graph_save_dir'', PyStr ''ckpt''), (''directed'', PyBool False)]] \<and>
   sample_calls (trace (sample_graph accepts returns_input ring_dataset
       (default_args\<lparr>sampler := ''label_edge'', checkpoint_dir := Some ''ckpt''\<rparr>) fresh_world))
     = [(Sampler LabelEdgeSampler []
          [(''p'', PyFloat (1 / 2)), (''homophilic_prob'', PyFloat (1 / 2)),
           (''graph_save_dir'', PyStr ''ckpt''), (''directed'', PyBool False)], ring6)]"
  using sample_graph_dispatch
    [of "default_args\<lparr>sampler := ''label_edge'', checkpoint_dir := Some ''ckpt''\<rparr>"
        accepts returns_input ring_dataset fresh_world]
  by (simp add: dispatches_to_def default_args_def opt_str_def ring_dataset_def accepts_def)

text \<open>
  Claim C9.  If \<^verbatim>\<open>args.sampler\<close> is none of the eight names, \<^verbatim>\<open>sample_graph\<close> raises
  before a sampler is constructed and before \<^verbatim>\<open>set_sampled_graph\<close> is called, and the
  dataset is as it was before the call.
\<close>

theorem unknown_sampler_atomic:
  assumes "sampler a \<notin> set sampler_names"
  shows "raised (sample_graph init strategy ds a w) \<noteq> None \<and>
         constructions (trace (sample_graph init strategy ds a w)) = [] \<and>
         stored_graphs (trace (sample_graph init strategy ds a w)) = [] \<and>
         dataset_after (sample_graph init strategy ds a w) = ds"
  using sampler_binding_unknown [OF assms, of ds] by (simp add: sample_graph_def)

theorem unknown_sampler_atomic_witness:
  "sampler (default_args\<lparr>sampler := ''random_walk''\<rparr>) \<notin> set sampler_names \<and>
   raised (sample_graph accepts returns_input ring_dataset
       (default_args\<lparr>sampler := ''random_walk''\<rparr>) fresh_world) \<noteq> None \<and>
   constructions (trace (sample_graph accepts returns_input ring_dataset
       (default_args\<lparr>sampler := ''random_walk''\<rparr>) fresh_world)) = [] \<and>
   stored_graphs (trace (sample_graph accepts returns_input ring_dataset
       (default_args\<lparr>sampler := ''random_walk''\<rparr>) fresh_world)) = [] \<and>
   dataset_after (sample_graph accepts returns_input ring_dataset
       (default_args\<lparr>sampler := ''random_walk''\<rparr>) fresh_world) = ring_dataset"
proof -
  have h: "sampler (default_args\<lparr>sampler := ''random_walk''\<rparr>) \<notin> set sampler_names"
    by (simp add: sampler_names_def)
  show ?thesis
    using h unknown_sampler_atomic [OF h, of accepts returns_input ring_dataset fresh_world]
    by simp
qed

text \<open>
  Claim C2, as stated, asks for a \<^verbatim>\<open>ConfigurationError\<close> for a name outside the
  enumeration.  The driver defines and raises no such exception: for
  \<^verbatim>\<open>--sampler random_walk\<close> the exception that leaves \<^verbatim>\<open>main\<close> is not a
  \<^verbatim>\<open>ConfigurationError\<close>.
\<close>

theorem unknown_sampler_ConfigurationError_counterexample:
  "sampler (parse_arguments [OptSampler ''random_walk'']) \<notin> set sampler_names \<and>
   \<not> raises_ConfigurationError
       (failure (main load_ring accepts returns_input [OptSampler ''random_walk''] fresh_world))"
  by (simp add: main_def Let_def parse_arguments_def default_args_def sampler_names_def
      set_seeds_def set_args_based_on_dataset_def truthy_def sample_graph_def
      sampler_binding_def load_ring_def raises_ConfigurationError_def is_ConfigurationError_def)

text \<open>
  Claim C2, amended.  For every sampler name outside the enumeration the exception that
  leaves \<^verbatim>\<open>sample_graph\<close>, and \<^verbatim>\<open>main\<close> unmodified, is Python's \<^verbatim>\<open>UnboundLocalError\<close>
  for the local variable \<^verbatim>\<open>sampler\<close>; no sampler is constructed, so there is no
  fallback to \<^verbatim>\<open>FullSampler\<close>.
\<close>

theorem unknown_sampler_raises_UnboundLocalError:
  assumes "sampler (parse_arguments argv) \<notin> set sampler_names"
  shows "failure (main load init strategy argv w) = Some (UnboundLocalError ''sampler'') \<and>
         constructions (events (main load init strategy argv w)) = []"
proof -
  let ?a = "args_after (main load init strategy argv w)"
  let ?l = "load (dataset ?a) seeded_world"
  have "sampler ?a \<notin> set sampler_names"
    using assms by (simp add: sampler_parse_main)
  then have "sampler_binding (fst ?l) ?a = None"
    by (rule sampler_binding_unknown)
  then show ?thesis
    by (simp add: main_sampling [OF refl refl refl] sample_graph_def)
qed

theorem unknown_sampler_raises_UnboundLocalError_witness:
  "sampler (parse_arguments [OptSampler ''random_walk'']) \<notin> set sampler_names \<and>
   failure (main load_ring accepts returns_input [OptSampler ''random_walk''] fresh_world)
     = Some (UnboundLocalError ''sampler'') \<and>
   constructions (events (main load_ring accepts returns_input [OptSampler ''random_walk'']
     fresh_world)) = []"
proof -
  have h: "sampler (parse_arguments [OptSampler ''random_walk'']) \<notin> set sampler_names"
    by (simp add: parse_arguments_def sampler_names_def)
  show ?thesis
    using h unknown_sampler_raises_UnboundLocalError
      [OF h, of load_ring accepts returns_input fresh_world]
    by simp
qed

subsection \<open>Validation\<close>




subsection \<open>Randomness\<close>



text \<open>
  Claim C6, as stated, asks that every sampler invocation receives its random generator
  as an explicit argument or constructor parameter.  For \<^verbatim>\<open>--sampler forest_fire\<close> the
  constructor gets \<^verbatim>\<open>p\<close>, \<^verbatim>\<open>p_f\<close> and \<^verbatim>\<open>graph_save_dir\<close> only, and the call of
  \<^verbatim>\<open>sample_graph\<close> gets the graph only.
\<close>

theorem explicit_generator_counterexample:
  "constructions (events (main load_ring accepts returns_input [OptSampler ''forest_fire'']
       fresh_world))
     = [Sampler ForestFireSampler []
          [(''p'', PyFloat (1 / 2)), (''p_f'', PyFloat (1 / 2)), (''graph_save_dir'', PyNone)]] \<and>
   \<not> receives_generator (Sampler ForestFireSampler []
          [(''p'', PyFloat (1 / 2)), (''p_f'', PyFloat (1 / 2)), (''graph_save_dir'', PyNone)]) \<and>
   sample_calls (events (main load_ring accepts returns_input [OptSampler ''forest_fire'']
       fresh_world))
     = [(Sampler ForestFireSampler []
          [(''p'', PyFloat (1 / 2)), (''p_f'', PyFloat (1 / 2)), (''graph_save_dir'', PyNone)],
         ring6)]"
  by (simp add: main_def Let_def parse_arguments_def default_args_def set_seeds_def
      set_args_based_on_dataset_def truthy_def sample_graph_def sampler_binding_def
      returns_input_def accepts_def load_ring_def ring_dataset_def opt_str_def
      set_sampled_graph_def receives_generator_def arguments_def is_generator_def)

text \<open>
  Claim C6, amended.  No sampler that the driver constructs receives a random generator
  among its constructor arguments, and every call of a sampler's \<^verbatim>\<open>sample_graph\<close>
  passes the graph of the dataset and nothing else.  The only randomness the driver
  sets up is ambient: the seedings of a run are those of the global NumPy, Torch (CPU
  and CUDA) and Python generators by \<^verbatim>\<open>set_seeds\<close>, and the state these generators are
  left in is what the code called afterwards starts from.
\<close>

theorem no_generator_argument:
  "(\<forall>smp \<in> set (constructions (events (main load init strategy argv w))).
       \<not> receives_generator smp) \<and>
   (\<forall>c \<in> set (sample_calls (events (main load init strategy argv w))).
       \<not> receives_generator (fst c) \<and>
       snd c = graph (fst (load (dataset (args_after (main load init strategy argv w)))
                            (fst (set_seeds w))))) \<and>
   seedings (events (main load init strategy argv w))
     = [SeedNumpy 42, SeedTorch 42, SeedTorchCuda 42, SeedPython 42] \<and>
   map snd (loads (events (main load init strategy argv w))) = [fst (set_seeds w)] \<and>
   numpy_random (fst (set_seeds w)) = Seeded 42 0 \<and>
   torch_cpu (fst (set_seeds w)) = Seeded 42 0 \<and>
   torch_cuda (fst (set_seeds w)) = Seeded 42 0 \<and>
   python_random (fst (set_seeds w)) = Seeded 42 0"
proof -
  let ?r = "main load init strategy argv w"
  let ?a = "args_after ?r"
  let ?l = "load (dataset ?a) seeded_world"
  let ?out = "sample_graph init strategy (fst ?l) ?a (snd ?l)"
  note m = main_sampling [OF refl refl refl, of load init strategy argv w]
  have c: "\<forall>smp \<in> set (constructions (events ?r)). \<not> receives_generator smp"
  proof (cases "sampler_binding (fst ?l) ?a")
    case None
    then show ?thesis by (simp add: m sample_graph_constructions)
  next
    case (Some smp)
    with sampler_binding_no_generator [OF Some] show ?thesis
      by (simp add: m sample_graph_constructions receives_generator_def)
  qed
  have s: "\<forall>c \<in> set (sample_calls (events ?r)).
       \<not> receives_generator (fst c) \<and> snd c = graph (fst ?l)"
  proof -
    from sample_graph_calls [of init strategy "fst ?l" ?a "snd ?l"]
    consider "sample_calls (trace ?out) = []"
      | smp where "sampler_binding (fst ?l) ?a = Some smp"
          and "sample_calls (trace ?out) = [(smp, graph (fst ?l))]"
      by blast
    then show ?thesis
    proof cases
      case 1
      then show ?thesis by (simp add: m)
    next
      case 2
      with sampler_binding_no_generator [OF 2(1)] show ?thesis
        by (simp add: m receives_generator_def)
    qed
  qed
  have g: "numpy_random seeded_world = Seeded 42 0" "torch_cpu seeded_world = Seeded 42 0"
    "torch_cuda seeded_world = Seeded 42 0" "python_random seeded_world = Seeded 42 0"
    by (simp_all add: seeded_world_def)
  from c s g show ?thesis
    by (simp add: m set_seeds_world)
qed

theorem no_generator_argument_witness:
  "Sampler UniformEdgeSampler []
      [(''p'', PyFloat (1 / 2)), (''graph_save_dir'', PyNone), (''directed'', PyBool False)]
     \<in> set (constructions (events (main load_ring accepts returns_input
              [OptSampler ''uniform_edge''] fresh_world))) \<and>
   \<not> receives_generator (Sampler UniformEdgeSampler []
      [(''p'', PyFloat (1 / 2)), (''graph_save_dir'', PyNone), (''directed'', PyBool False)]) \<and>
   (Sampler UniformEdgeSampler []
      [(''p'', PyFloat (1 / 2)), (''graph_save_dir'', PyNone), (''directed'', PyBool False)], ring6)
     \<in> set (sample_calls (events (main load_ring accepts returns_input
              [OptSampler ''uniform_edge''] fresh_world))) \<and>
   seedings (events (main load_ring accepts returns_input [OptSampler ''uniform_edge'']
       fresh_world))
     = [SeedNumpy 42, SeedTorch 42, SeedTorchCuda 42, SeedPython 42] \<and>
   map snd (loads (events (main load_ring accepts returns_input [OptSampler ''uniform_edge'']
       fresh_world))) = [seeded_world]"
proof -
  let ?smp = "Sampler UniformEdgeSampler []
      [(''p'', PyFloat (1 / 2)), (''graph_save_dir'', PyNone), (''directed'', PyBool False)]"
  let ?r = "main load_ring accepts returns_input [OptSampler ''uniform_edge''] fresh_world"
  have m: "?smp \<in> set (constructions (events ?r))"
    by (simp add: main_def Let_def parse_arguments_def default_args_def set_seeds_def
      set_args_based_on_dataset_def truthy_def sample_graph_def sampler_binding_def
      returns_input_def accepts_def load_ring_def ring_dataset_def opt_str_def)
  have c: "(?smp, ring6) \<in> set (sample_calls (events ?r))"
    by (simp add: main_def Let_def parse_arguments_def default_args_def set_seeds_def
      set_args_based_on_dataset_def truthy_def sample_graph_def sampler_binding_def
      returns_input_def accepts_def load_ring_def ring_dataset_def opt_str_def)
  from no_generator_argument
    [of load_ring accepts returns_input "[OptSampler ''uniform_edge'']" fresh_world] m
  have "\<not> receives_generator ?smp"
    and "seedings (events ?r) = [SeedNumpy 42, SeedTorch 42, SeedTorchCuda 42, SeedPython 42]"
    and "map snd (loads (events ?r)) = [fst (set_seeds fresh_world)]"
    by blast+
  with m c show ?thesis by (simp add: set_seeds_world)
qed




subsection \<open>The base class\<close>

text \<open>
  Claim C4 asks that \<^verbatim>\<open>sample_graph\<close> of a \<^verbatim>\<open>GraphSampler\<close> returns a graph and never
  \<^verbatim>\<open>None\<close>.  The method of the base class, called on the ring of six nodes, returns
  \<^verbatim>\<open>None\<close>.
\<close>

theorem GraphSampler_sample_graph_returns_None:
  "GraphSampler_sample_graph GraphSampler_init ring6 = None"
  by (simp add: GraphSampler_sample_graph_def)

section \<open>Properties of the strategies\<close>

subsection \<open>The forest fire\<close>

lemma ignite_subset:
  "ignite R pf room vs s = (bs, s') \<Longrightarrow> set bs \<subseteq> set vs"
proof (induction vs arbitrary: room s bs s')
  case Nil
  then show ?case by simp
next
  case (Cons v vs)
  show ?case
  proof (cases "room = 0")
    case True
    with Cons.prems show ?thesis by simp
  next
    case False
    obtain hit s1 where b: "bernoulli R pf s = (hit, s1)" by (cases "bernoulli R pf s")
    show ?thesis
    proof (cases hit)
      case True
      obtain cs s2 where r: "ignite R pf (room - 1) vs s1 = (cs, s2)"
        by (cases "ignite R pf (room - 1) vs s1")
      from Cons.prems False b True r have "bs = v # cs" by simp
      with Cons.IH [OF r] show ?thesis by auto
    next
      case hitF: False
      from Cons.prems False b hitF have "ignite R pf room vs s1 = (bs, s')" by simp
      from Cons.IH [OF this] show ?thesis by auto
    qed
  qed
qed

lemma ignite_distinct:
  "ignite R pf room vs s = (bs, s') \<Longrightarrow> distinct vs \<Longrightarrow> distinct bs"
proof (induction vs arbitrary: room s bs s')
  case Nil
  then show ?case by simp
next
  case (Cons v vs)
  show ?case
  proof (cases "room = 0")
    case True
    with Cons.prems show ?thesis by simp
  next
    case False
    obtain hit s1 where b: "bernoulli R pf s = (hit, s1)" by (cases "bernoulli R pf s")
    show ?thesis
    proof (cases hit)
      case True
      obtain cs s2 where r: "ignite R pf (room - 1) vs s1 = (cs, s2)"
        by (cases "ignite R pf (room - 1) vs s1")
      from Cons.prems False b True r have e: "bs = v # cs" by simp
      from ignite_subset [OF r] Cons.prems(2) have "v \<notin> set cs" by auto
      moreover from Cons.IH [OF r] Cons.prems(2) have "distinct cs" by simp
      ultimately show ?thesis using e by simp
    next
      case hitF: False
      from Cons.prems False b hitF have "ignite R pf room vs s1 = (bs, s')" by simp
      from Cons.IH [OF this] Cons.prems(2) show ?thesis by simp
    qed
  qed
qed

lemma unvisited_distinct: "distinct (unvisited g visited)"
  by (simp add: unvisited_def)

lemma unvisited_set: "set (unvisited g visited) = {0..<num_nodes g} - set visited"
  by (auto simp: unvisited_def)

lemma ignite_fresh:
  assumes "ignite R pf room (unvisited_neighbours g visited u) s = (new, s')"
    and "distinct visited" and "set visited \<subseteq> {0..<num_nodes g}"
  shows "distinct (visited @ new) \<and> set (visited @ new) \<subseteq> {0..<num_nodes g}"
proof -
  have "distinct (unvisited_neighbours g visited u)"
    by (simp add: unvisited_neighbours_def unvisited_distinct)
  with ignite_distinct [OF assms(1)] have "distinct new" by simp
  moreover from ignite_subset [OF assms(1)] have "set new \<subseteq> {0..<num_nodes g} - set visited"
    by (auto simp: unvisited_neighbours_def unvisited_set)
  ultimately show ?thesis using assms(2,3) by auto
qed

text \<open>
  The invariant of the loop: the burned nodes are pairwise different nodes of the graph,
  and every node that has spread the fire or waits in the queue is a burned node, so
  that the steps made and the length of the queue together do not exceed the number of
  burned nodes.
\<close>

lemma burn_invariant:
  "distinct visited \<Longrightarrow> set visited \<subseteq> {0..<num_nodes g} \<Longrightarrow>
   steps + length frontier \<le> length visited \<Longrightarrow>
   burn R g pf quota visited frontier s steps = (out, s', n) \<Longrightarrow>
   distinct out \<and> set out \<subseteq> {0..<num_nodes g} \<and> n \<le> length out"
proof (induction R g pf quota visited frontier s steps arbitrary: out s' n rule: burn.induct)
  case (1 R g pf quota visited frontier s steps)
  note d = "1.prems"(1) and b = "1.prems"(2) and c = "1.prems"(3) and eq = "1.prems"(4)
  show ?case
  proof (cases "quota \<le> length visited")
    case True
    then have "burn R g pf quota visited frontier s steps = (visited, s, steps)"
      by (subst burn.simps) (simp del: burn.simps)
    with eq d b c show ?thesis by (simp del: burn.simps)
  next
    case quota: False
    show ?thesis
    proof (cases frontier)
      case Nil
      show ?thesis
      proof (cases "unvisited g visited = []")
        case True
        with quota Nil have "burn R g pf quota visited frontier s steps = (visited, s, steps)"
          by (subst burn.simps) (simp del: burn.simps)
        with eq d b c show ?thesis by (simp del: burn.simps)
      next
        case False
        let ?u = "unvisited g visited"
        obtain i s1 where ch: "choice R (length ?u) s = (i, s1)"
          by (cases "choice R (length ?u) s")
        let ?seed = "?u ! (i mod length ?u)"
        let ?lit = "visited @ [?seed]"
        obtain new s2 where ig:
          "ignite R pf (quota - length ?lit) (unvisited_neighbours g ?lit ?seed) s1 = (new, s2)"
          by (cases "ignite R pf (quota - length ?lit) (unvisited_neighbours g ?lit ?seed) s1")
        from False have "?seed \<in> set ?u" by simp
        then have dl: "distinct ?lit" and bl: "set ?lit \<subseteq> {0..<num_nodes g}"
          using d b by (auto simp: unvisited_set)
        from ignite_fresh [OF ig dl bl]
        have dn: "distinct (?lit @ new)" and bn: "set (?lit @ new) \<subseteq> {0..<num_nodes g}"
          by simp_all
        from c Nil have cn: "steps + 1 + length new \<le> length (?lit @ new)"
          by simp
        have "burn R g pf quota visited frontier s steps
            = burn R g pf quota (?lit @ new) new s2 (steps + 1)"
          using ig by (subst burn.simps) (simp add: quota Nil False ch Let_def del: burn.simps)
        with eq have r: "burn R g pf quota (?lit @ new) new s2 (steps + 1) = (out, s', n)"
          by (simp del: burn.simps)
        from "1.IH"(1) [OF quota Nil False ch [symmetric] refl refl ig [symmetric] dn bn cn r]
        show ?thesis .
      qed
    next
      case (Cons u rest)
      obtain new s1 where ig:
        "ignite R pf (quota - length visited) (unvisited_neighbours g visited u) s = (new, s1)"
        by (cases "ignite R pf (quota - length visited) (unvisited_neighbours g visited u) s")
      from ignite_fresh [OF ig d b]
      have dn: "distinct (visited @ new)" and bn: "set (visited @ new) \<subseteq> {0..<num_nodes g}"
        by simp_all
      from c Cons have cn: "steps + 1 + length (rest @ new) \<le> length (visited @ new)"
        by simp
      have "burn R g pf quota visited frontier s steps
          = burn R g pf quota (visited @ new) (rest @ new) s1 (steps + 1)"
        using ig by (subst burn.simps) (simp add: quota Cons del: burn.simps)
      with eq have r: "burn R g pf quota (visited @ new) (rest @ new) s1 (steps + 1) = (out, s', n)"
        by (simp del: burn.simps)
      from "1.IH"(2) [OF quota Cons ig [symmetric] dn bn cn r]
      show ?thesis .
    qed
  qed
qed

text \<open>
  Claim C8.  \<^verbatim>\<open>ForestFireSampler.sample_graph\<close> ends on every graph, after at most as
  many steps as the graph has nodes, and burns no node twice: the burned nodes, in
  the order in which they burned, are pairwise different nodes of the graph, and every
  step is the spreading of one of them.
\<close>

theorem forest_fire_terminates_no_reburn:
  "distinct (burn_order (ForestFireSampler_sample_graph R p pf g s)) \<and>
   set (burn_order (ForestFireSampler_sample_graph R p pf g s)) \<subseteq> {0..<num_nodes g} \<and>
   length (burn_order (ForestFireSampler_sample_graph R p pf g s)) \<le> num_nodes g \<and>
   iterations (ForestFireSampler_sample_graph R p pf g s)
     \<le> length (burn_order (ForestFireSampler_sample_graph R p pf g s)) \<and>
   iterations (ForestFireSampler_sample_graph R p pf g s) \<le> num_nodes g"
proof -
  obtain out s' n where
    b: "burn R g pf (target_count p (num_nodes g)) [] [] s 0 = (out, s', n)"
    by (cases "burn R g pf (target_count p (num_nodes g)) [] [] s 0")
  from burn_invariant [OF _ _ _ b]
  have d: "distinct out" and i: "set out \<subseteq> {0..<num_nodes g}" and n: "n \<le> length out"
    by simp_all
  from i have "card (set out) \<le> card {0..<num_nodes g}"
    by (intro card_mono) simp_all
  with d have l: "length out \<le> num_nodes g"
    by (simp add: distinct_card)
  with d i n b show ?thesis
    by (simp add: ForestFireSampler_sample_graph_def)
qed

theorem forest_fire_terminates_no_reburn_witness:
  "burn_order (ForestFireSampler_sample_graph always_ignites 1 (1 / 2) ring6 ())
     = [0, 1, 5, 2, 4, 3] \<and>
   iterations (ForestFireSampler_sample_graph always_ignites 1 (1 / 2) ring6 ()) = 4 \<and>
   distinct (burn_order (ForestFireSampler_sample_graph always_ignites 1 (1 / 2) ring6 ())) \<and>
   set (burn_order (ForestFireSampler_sample_graph always_ignites 1 (1 / 2) ring6 ()))
     \<subseteq> {0..<num_nodes ring6} \<and>
   length (burn_order (ForestFireSampler_sample_graph always_ignites 1 (1 / 2) ring6 ()))
     \<le> num_nodes ring6 \<and>
   iterations (ForestFireSampler_sample_graph always_ignites 1 (1 / 2) ring6 ())
     \<le> num_nodes ring6"
proof -
  have "ForestFireSampler_sample_graph always_ignites 1 (1 / 2) ring6 ()
      = \<lparr> burn_order = [0, 1, 5, 2, 4, 3],
          retained_edges = [(0, 1), (1, 2), (2, 3), (3, 4), (4, 5), (5, 0)], iterations = 4,
          generator_after = () \<rparr>"
    by (simp add: ForestFireSampler_sample_graph_def target_count_def always_ignites_def
        ring6_def unvisited_def unvisited_neighbours_def adjacent_def upt_rec [of _ "numeral _"])
  then have "burn_order (ForestFireSampler_sample_graph always_ignites 1 (1 / 2) ring6 ())
      = [0, 1, 5, 2, 4, 3]"
    and "iterations (ForestFireSampler_sample_graph always_ignites 1 (1 / 2) ring6 ()) = 4"
    by simp_all
  with forest_fire_terminates_no_reburn [of always_ignites 1 "1 / 2" ring6 "()"]
  show ?thesis by blast
qed

subsection \<open>The full sampler\<close>

text \<open>
  Claim C7.  \<^verbatim>\<open>FullSampler.sample_graph\<close> is the identity: it returns the object it was
  given and leaves the store as it is, so no copy is allocated and the graph behind
  the result has the nodes, edges, labels and features of the original.
\<close>

theorem FullSampler_identity:
  "snd (FullSampler_sample_graph h r) = r \<and>
   fst (FullSampler_sample_graph h r) = h \<and>
   dom (fst (FullSampler_sample_graph h r)) = dom h \<and>
   fst (FullSampler_sample_graph h r) (snd (FullSampler_sample_graph h r)) = h r \<and>
   map_option num_nodes (fst (FullSampler_sample_graph h r) (snd (FullSampler_sample_graph h r)))
     = map_option num_nodes (h r) \<and>
   map_option edges (fst (FullSampler_sample_graph h r) (snd (FullSampler_sample_graph h r)))
     = map_option edges (h r) \<and>
   map_option labels (fst (FullSampler_sample_graph h r) (snd (FullSampler_sample_graph h r)))
     = map_option labels (h r) \<and>
   map_option feature_refs (fst (FullSampler_sample_graph h r) (snd (FullSampler_sample_graph h r)))
     = map_option feature_refs (h r)"
  by (simp add: FullSampler_sample_graph_def)

theorem FullSampler_identity_witness:
  "FullSampler_sample_graph ring_store 0 = (ring_store, 0) \<and>
   fst (FullSampler_sample_graph ring_store 0) (snd (FullSampler_sample_graph ring_store 0))
     = Some ring6 \<and>
   map_option edges (fst (FullSampler_sample_graph ring_store 0) (snd (FullSampler_sample_graph ring_store 0)))
     = Some [(0, 1), (1, 2), (2, 3), (3, 4), (4, 5), (5, 0)]"
  using FullSampler_identity [of ring_store 0]
  by (simp add: ring_store_def ring6_def prod_eq_iff)

end
